theory Spec2Isabelle
  imports Main "HOL-Library.Monad_Syntax" "HOL-Library.AList"
begin

section \<open>The construct library, as far as the two stacks use it\<close>

text \<open>
  The repository holds two stack classes, \<open>AwsCdkEc2Stack\<close> (construct library, first
  generation) and \<open>AwsCdkFargateStack\<close> (second generation), and one entry script. Each
  constructor is a straight-line sequence of \<open>new X(this, id, props)\<close> calls and of method
  calls that mutate a construct made earlier. The construct library itself is not part of
  the repository; what it does with the calls of the two constructors is modelled here.

  A construct object is referred to by its id (a child of another construct by the pair of
  the parent's reference and its own id), so that a construct shared by several others is
  stored once and every mutation of it is seen by all of them. A constructor stores the
  properties it is given; a mutator changes the stored construct. An exception of the
  library is the result \<open>None\<close>. The model has these:
  \<^item> a stack whose name is not a letter followed by letters, digits and hyphens, or is
    longer than 128 characters (a bound of the library's later releases, which the model
    keeps throughout);
  \<^item> a second child of the stack with an id already taken;
  \<^item> the hosted-zone lookup in a stack whose account or region is not known at
    construction;
  \<^item> a container image built from a directory that does not exist;
  \<^item> a port mapping whose host port differs from its container port (the network mode
    of a Fargate task);
  \<^item> a service for a task definition with no container, and a service attached to a
    target group when its container has no port mapping.

  Two rules the library derives are modelled, since they land in the security groups the
  stacks declare: a listener is open by default and allows its port from anywhere in the
  balancer's security group, and attaching a service to a target group allows the
  balancer's security group into the service's security groups on the container's port.
  A security group keeps one rule for a peer and a port range, whatever the description.

  Outside the model: egress rules, the children the library adds to the stack on its own,
  the defaults of properties the stacks do not set, the checks of property values that the
  literals of the two constructors pass, and the trailing dot by which the declared DNS
  record's name is made fully qualified.
\<close>

type_synonym ref = string

subsection \<open>Network\<close>

datatype SubnetType = PUBLIC | PRIVATE_WITH_NAT | PRIVATE_ISOLATED

record SubnetConfiguration =
  cidrMask :: nat
  subnetName :: string
  subnetType :: SubnetType

record VpcProps =
  cidr :: string
  vpcName :: string
  enableDnsHostnames :: bool
  enableDnsSupport :: bool
  subnetConfiguration :: "SubnetConfiguration list"

subsection \<open>Security groups\<close>

datatype Protocol = TCP | UDP | ALL

record Port =
  protocol :: Protocol
  fromPort :: nat
  toPort :: nat

text \<open>\<open>ec2.Port.tcp(p)\<close>: the single TCP port \<open>p\<close>.\<close>

definition Port_tcp :: "nat \<Rightarrow> Port" where
  "Port_tcp p = \<lparr>protocol = TCP, fromPort = p, toPort = p\<rparr>"

datatype Peer = CidrIPv4 string | CidrIPv6 string | SecurityGroupPeer ref

text \<open>\<open>ec2.Peer.ipv4(cidr)\<close> and \<open>ec2.Peer.anyIpv4()\<close>.\<close>

definition Peer_ipv4 :: "string \<Rightarrow> Peer" where
  "Peer_ipv4 c = CidrIPv4 c"

definition Peer_anyIpv4 :: Peer where
  "Peer_anyIpv4 = CidrIPv4 ''0.0.0.0/0''"

text \<open>
  A rule between address ranges is written into the security group's own declaration; a
  rule whose peer is a security group becomes a resource of its own.
\<close>

fun canInlineRule :: "Peer \<Rightarrow> bool" where
  "canInlineRule (CidrIPv4 _) = True"
| "canInlineRule (CidrIPv6 _) = True"
| "canInlineRule (SecurityGroupPeer _) = False"

text \<open>
  Who asked for a rule: the stack's own code, by calling \<open>addIngressRule\<close>, or the
  library, on behalf of another construct. The library keeps no such mark; the model does,
  to tell the explicit rules of a group from the others.
\<close>

datatype Origin = Declared | Derived

record IngressRule =
  rulePeer :: Peer
  ruleConnection :: Port
  ruleDescription :: string
  ruleOrigin :: Origin

record SecurityGroupProps =
  sg_vpc :: ref
  securityGroupName :: string

record SecurityGroup =
  sg_props :: SecurityGroupProps
  ingressRules :: "IngressRule list"
  ingressResources :: "IngressRule list"

text \<open>A group has a rule already when one of its rules has the same peer and port range.\<close>

definition hasIngressRule :: "IngressRule \<Rightarrow> IngressRule list \<Rightarrow> bool" where
  "hasIngressRule r rules =
     ((rulePeer r, ruleConnection r) \<in> set (map (\<lambda>x. (rulePeer x, ruleConnection x)) rules))"

definition addRule :: "IngressRule \<Rightarrow> IngressRule list \<Rightarrow> IngressRule list" where
  "addRule r rules = (if hasIngressRule r rules then rules else rules @ [r])"

definition addRuleToGroup :: "IngressRule \<Rightarrow> SecurityGroup \<Rightarrow> SecurityGroup" where
  "addRuleToGroup r g =
     (if canInlineRule (rulePeer r) then g\<lparr>ingressRules := addRule r (ingressRules g)\<rparr>
      else g\<lparr>ingressResources := addRule r (ingressResources g)\<rparr>)"

subsection \<open>Hosted zone and certificate\<close>

record HostedZoneProviderProps =
  hz_domainName :: string

record DnsValidatedCertificateProps =
  certificateName :: "string option"
  cert_domainName :: string
  cert_hostedZone :: ref
  cert_region :: "string option"

text \<open>An attribute of a construct that is known at deployment only, such as its ARN.\<close>

datatype Token = GetAtt ref string

definition certificateArn :: "ref \<Rightarrow> Token" where
  "certificateArn c = GetAtt c ''Arn''"

subsection \<open>Load balancer, listener, target group\<close>

record ListenerCertificate =
  lc_certificateArn :: Token

record BaseApplicationListenerProps =
  l_port :: nat
  l_certificates :: "ListenerCertificate list"

datatype ListenerAction = forward "ref list"

record AddApplicationTargetGroupsProps =
  atg_targetGroups :: "ref list"
  atg_priority :: "nat option"

record ListenerRule =
  lr_id :: string
  lr_priority :: nat
  lr_action :: ListenerAction

record ApplicationListener =
  l_id :: string
  l_props :: BaseApplicationListenerProps
  defaultAction :: "ListenerAction option"
  listenerRules :: "ListenerRule list"

record ApplicationLoadBalancerProps =
  alb_vpc :: ref
  internetFacing :: bool
  alb_securityGroup :: ref
  loadBalancerName :: string

record ApplicationLoadBalancer =
  alb_props :: ApplicationLoadBalancerProps
  listeners :: "ApplicationListener list"

datatype TargetType = INSTANCE | IP | LAMBDA

datatype ApplicationProtocol = HTTP | HTTPS

record HealthCheck =
  hc_path :: "string option"
  healthyHttpCodes :: "string option"

record ApplicationTargetGroupProps =
  tg_vpc :: ref
  tg_port :: nat
  targetType :: TargetType
  tg_protocol :: ApplicationProtocol
  targetGroupName :: string
  healthCheck :: HealthCheck

text \<open>
  A target group remembers the listeners that forward to it and the services attached to
  it, each service with the port range its tasks are reached on.
\<close>

record ApplicationTargetGroup =
  tg_props :: ApplicationTargetGroupProps
  tg_listeners :: "(ref \<times> string) list"
  connectableMembers :: "(ref \<times> Port) list"

subsection \<open>Health-check status codes\<close>

text \<open>
  \<open>healthyHttpCodes\<close> is a string. The load-balancing service reads it as a
  comma-separated list whose items are a status code or a range \<open>low-high\<close> of codes.
  \<open>httpCodes\<close> gives the codes such a string stands for, \<open>None\<close> when it is not of that
  form.
\<close>

definition digit :: "char \<Rightarrow> nat option" where
  "digit c = map_of (zip ''0123456789'' [0, 1, 2, 3, 4, 5, 6, 7, 8, 9]) c"

fun digits :: "string \<Rightarrow> nat \<Rightarrow> nat option" where
  "digits [] acc = Some acc"
| "digits (c # cs) acc =
     (case digit c of None \<Rightarrow> None | Some d \<Rightarrow> digits cs (10 * acc + d))"

definition statusCode :: "string \<Rightarrow> nat option" where
  "statusCode s = (if s = [] then None else digits s 0)"

fun fields :: "char \<Rightarrow> string \<Rightarrow> string list" where
  "fields sep [] = [[]]"
| "fields sep (c # cs) =
     (if c = sep then [] # fields sep cs
      else (case fields sep cs of [] \<Rightarrow> [[c]] | f # fs \<Rightarrow> (c # f) # fs))"

definition codeRange :: "string \<Rightarrow> nat list option" where
  "codeRange s =
     (case fields (CHR ''-'') s of
        [a] \<Rightarrow> map_option (\<lambda>n. [n]) (statusCode a)
      | [a, b] \<Rightarrow>
          (case (statusCode a, statusCode b) of
             (Some m, Some n) \<Rightarrow> Some [m..<Suc n]
           | _ \<Rightarrow> None)
      | _ \<Rightarrow> None)"

definition httpCodes :: "string \<Rightarrow> nat list option" where
  "httpCodes s = map_option concat (those (map codeRange (fields (CHR '','') s)))"

text \<open>A number in decimal, as a template string prints it.\<close>

function decimal :: "nat \<Rightarrow> string" where
  "decimal n =
     (if n < 10 then [''0123456789'' ! n]
      else decimal (n div 10) @ [''0123456789'' ! (n mod 10)])"
  by pat_completeness auto
termination
  by (relation "measure (\<lambda>n. n)") auto

declare decimal.simps [simp del]

subsection \<open>Cluster, task definition, container, service\<close>

record ClusterProps =
  cl_vpc :: ref
  clusterName :: string

record FargateTaskDefinitionProps =
  memoryLimitMiB :: nat
  cpu :: nat

datatype ContainerImage = fromAsset string | fromRegistry string

text \<open>
  \<open>log.RetentionDays\<close> is a numeric enumeration of the library: the value of a member is
  the number of days. The stacks use \<open>ONE_MONTH\<close>.
\<close>

type_synonym RetentionDays = nat

definition ONE_DAY :: RetentionDays where "ONE_DAY = 1"
definition ONE_WEEK :: RetentionDays where "ONE_WEEK = 7"
definition ONE_MONTH :: RetentionDays where "ONE_MONTH = 30"

record AwsLogDriverProps =
  streamPrefix :: string
  logRetention :: "RetentionDays option"

datatype LogDriver = awsLogs AwsLogDriverProps

record ContainerDefinitionOptions =
  containerName :: string
  image :: ContainerImage
  logging :: "LogDriver option"

record PortMapping =
  containerPort :: nat
  hostPort :: "nat option"

record ContainerDefinition =
  cd_id :: string
  cd_props :: ContainerDefinitionOptions
  portMappings :: "PortMapping list"

record FargateTaskDefinition =
  td_props :: FargateTaskDefinitionProps
  containers :: "ContainerDefinition list"

record FargateServiceProps =
  svc_cluster :: ref
  serviceName :: string
  svc_taskDefinition :: ref
  desiredCount :: nat
  assignPublicIp :: bool
  svc_securityGroups :: "ref list"

record FargateService =
  svc_props :: FargateServiceProps
  attachedTargetGroups :: "ref list"

subsection \<open>DNS record\<close>

datatype AliasRecordTarget = LoadBalancerTarget ref | CloudFrontTarget ref

datatype RecordTarget = fromAlias AliasRecordTarget | fromIpAddresses "string list"

record ARecordProps =
  rec_zone :: ref
  recordName :: string
  rec_target :: RecordTarget

subsection \<open>The stack\<close>

text \<open>
  The scope of a stack is a new app, as the entry script makes it. The machine the
  constructor runs on is known by the directories, relative to the working directory,
  that hold a container build context. Of the stack's properties the environment is
  modelled: the account and the region the stack is deployed to.
\<close>

datatype Construct = App

record Host =
  imageDirectories :: "string list"

record Environment =
  account :: "string option"
  region :: "string option"

record StackProps =
  env :: "Environment option"

fun envAccount :: "StackProps option \<Rightarrow> string option" where
  "envAccount None = None"
| "envAccount (Some p) = (case env p of None \<Rightarrow> None | Some e \<Rightarrow> account e)"

fun envRegion :: "StackProps option \<Rightarrow> string option" where
  "envRegion None = None"
| "envRegion (Some p) = (case env p of None \<Rightarrow> None | Some e \<Rightarrow> region e)"

text \<open>
  An account or region that is not given stands for a value found at deployment, and so
  does a string that carries the library's marker of such a value; the marker starts with
  a dollar sign, and the model takes every string with a dollar sign for one.
\<close>

fun known :: "string option \<Rightarrow> bool" where
  "known None = False"
| "known (Some str) = (CHR ''$'' \<notin> set str)"

definition letters :: string where
  "letters = ''abcdefghijklmnopqrstuvwxyzABCDEFGHIJKLMNOPQRSTUVWXYZ''"

definition validStackName :: "string \<Rightarrow> bool" where
  "validStackName n =
     (case n of
        [] \<Rightarrow> False
      | c # cs \<Rightarrow>
          c \<in> set letters \<and> list_all (\<lambda>x. x \<in> set (letters @ ''0123456789-'')) cs
          \<and> length n \<le> 128)"

record Stack =
  stackHost :: Host
  stackScope :: Construct
  stackId :: string
  stackProps :: "StackProps option"
  stackAccount :: "string option"
  stackRegion :: "string option"
  constructIds :: "ref list"
  vpcs :: "(ref \<times> VpcProps) list"
  securityGroups :: "(ref \<times> SecurityGroup) list"
  hostedZones :: "(ref \<times> HostedZoneProviderProps) list"
  certificates :: "(ref \<times> DnsValidatedCertificateProps) list"
  loadBalancers :: "(ref \<times> ApplicationLoadBalancer) list"
  targetGroups :: "(ref \<times> ApplicationTargetGroup) list"
  clusters :: "(ref \<times> ClusterProps) list"
  taskDefinitions :: "(ref \<times> FargateTaskDefinition) list"
  services :: "(ref \<times> FargateService) list"
  aRecords :: "(ref \<times> ARecordProps) list"

text \<open>
  \<open>super(scope, id, props)\<close>: a stack with no child yet, named by its id. Its account and
  region are those of the environment in \<open>props\<close>.
\<close>

definition new_Stack ::
  "Host \<Rightarrow> Construct \<Rightarrow> string \<Rightarrow> StackProps option \<Rightarrow> Stack option" where
  "new_Stack host scope i props =
     (if validStackName i then
        Some \<lparr>stackHost = host, stackScope = scope, stackId = i, stackProps = props,
              stackAccount = envAccount props, stackRegion = envRegion props,
              constructIds = [],
              vpcs = [], securityGroups = [], hostedZones = [], certificates = [],
              loadBalancers = [], targetGroups = [], clusters = [], taskDefinitions = [],
              services = [], aRecords = []\<rparr>
      else None)"

text \<open>
  A new child of the stack: refused when the id is taken, otherwise the id is recorded and
  the construct's reference is its id.
\<close>

definition addChild :: "ref \<Rightarrow> Stack \<Rightarrow> Stack option" where
  "addChild i s =
     (if i \<in> set (constructIds s) then None
      else Some (s\<lparr>constructIds := constructIds s @ [i]\<rparr>))"

text \<open>Running an action for each element of a list, stopping at the first failure.\<close>

fun forEach :: "('a \<Rightarrow> 's \<Rightarrow> 's option) \<Rightarrow> 'a list \<Rightarrow> 's \<Rightarrow> 's option" where
  "forEach f [] s = Some s"
| "forEach f (x # xs) s = (case f x s of None \<Rightarrow> None | Some s' \<Rightarrow> forEach f xs s')"

definition new_Vpc :: "ref \<Rightarrow> VpcProps \<Rightarrow> Stack \<Rightarrow> (ref \<times> Stack) option" where
  "new_Vpc i props s =
     do { s \<leftarrow> addChild i s; Some (i, s\<lparr>vpcs := vpcs s @ [(i, props)]\<rparr>) }"

definition new_SecurityGroup ::
  "ref \<Rightarrow> SecurityGroupProps \<Rightarrow> Stack \<Rightarrow> (ref \<times> Stack) option" where
  "new_SecurityGroup i props s =
     do { s \<leftarrow> addChild i s;
          Some (i, s\<lparr>securityGroups := securityGroups s @
                       [(i, \<lparr>sg_props = props, ingressRules = [],
                             ingressResources = []\<rparr>)]\<rparr>) }"

text \<open>
  The library's \<open>addIngressRule\<close>, with the mark of who asked: the rule goes into the group
  unless the group has one for the same peer and port range.
\<close>

definition securityGroup_addIngressRule ::
  "Origin \<Rightarrow> ref \<Rightarrow> Peer \<Rightarrow> Port \<Rightarrow> string \<Rightarrow> Stack \<Rightarrow> Stack option" where
  "securityGroup_addIngressRule origin sg peer connection descr s =
     (case map_of (securityGroups s) sg of
        None \<Rightarrow> None
      | Some g \<Rightarrow>
          Some (s\<lparr>securityGroups :=
                    AList.update sg
                      (addRuleToGroup
                         \<lparr>rulePeer = peer, ruleConnection = connection,
                          ruleDescription = descr, ruleOrigin = origin\<rparr> g)
                      (securityGroups s)\<rparr>))"

text \<open>\<open>securityGroup.addIngressRule(peer, connection, description)\<close>, called by a stack.\<close>

definition addIngressRule :: "ref \<Rightarrow> Peer \<Rightarrow> Port \<Rightarrow> string \<Rightarrow> Stack \<Rightarrow> Stack option" where
  "addIngressRule = securityGroup_addIngressRule Declared"

text \<open>
  \<open>connections.allowFrom(other, portRange, description)\<close>: every group of the one side
  gets a rule for every peer of the other side.
\<close>

definition allowFrom :: "ref list \<Rightarrow> Peer list \<Rightarrow> Port \<Rightarrow> string \<Rightarrow> Stack \<Rightarrow> Stack option" where
  "allowFrom groups peers portRange descr =
     forEach (\<lambda>g. forEach (\<lambda>p. securityGroup_addIngressRule Derived g p portRange descr) peers)
       groups"

text \<open>
  \<open>HostedZone.fromLookup(this, id, props)\<close>: the zone is looked up in the stack's account
  and region, which have to be known at construction.
\<close>

definition HostedZone_fromLookup ::
  "ref \<Rightarrow> HostedZoneProviderProps \<Rightarrow> Stack \<Rightarrow> (ref \<times> Stack) option" where
  "HostedZone_fromLookup i props s =
     (if known (stackAccount s) \<and> known (stackRegion s) then
        do { s \<leftarrow> addChild i s; Some (i, s\<lparr>hostedZones := hostedZones s @ [(i, props)]\<rparr>) }
      else None)"

definition new_DnsValidatedCertificate ::
  "ref \<Rightarrow> DnsValidatedCertificateProps \<Rightarrow> Stack \<Rightarrow> (ref \<times> Stack) option" where
  "new_DnsValidatedCertificate i props s =
     do { s \<leftarrow> addChild i s; Some (i, s\<lparr>certificates := certificates s @ [(i, props)]\<rparr>) }"

definition new_ApplicationLoadBalancer ::
  "ref \<Rightarrow> ApplicationLoadBalancerProps \<Rightarrow> Stack \<Rightarrow> (ref \<times> Stack) option" where
  "new_ApplicationLoadBalancer i props s =
     do { s \<leftarrow> addChild i s;
          Some (i, s\<lparr>loadBalancers :=
                       loadBalancers s @ [(i, \<lparr>alb_props = props, listeners = []\<rparr>)]\<rparr>) }"

text \<open>
  \<open>alb.addListener(id, props)\<close>: the listener is a child of the balancer, so its id has to
  be new among the balancer's listeners. It starts with no default action and no rule.
  The stacks do not set \<open>open\<close>, so the listener is open: its port is allowed from anywhere
  in the balancer's security group. The result refers to the listener by the balancer and
  the listener's id.
\<close>

definition addListener ::
  "ref \<Rightarrow> string \<Rightarrow> BaseApplicationListenerProps \<Rightarrow> Stack \<Rightarrow> ((ref \<times> string) \<times> Stack) option" where
  "addListener alb i props s =
     (case map_of (loadBalancers s) alb of
        None \<Rightarrow> None
      | Some b \<Rightarrow>
          if i \<in> set (map l_id (listeners b)) then None
          else
            do {
              s \<leftarrow> Some (s\<lparr>loadBalancers :=
                            AList.update alb
                              (b\<lparr>listeners := listeners b @
                                   [\<lparr>l_id = i, l_props = props, defaultAction = None,
                                     listenerRules = []\<rparr>]\<rparr>)
                              (loadBalancers s)\<rparr>);
              s \<leftarrow> allowFrom [alb_securityGroup (alb_props b)] [Peer_anyIpv4]
                     (Port_tcp (l_port props))
                     (''Allow from anyone on port '' @ decimal (l_port props)) s;
              Some ((alb, i), s)
            })"

definition new_ApplicationTargetGroup ::
  "ref \<Rightarrow> ApplicationTargetGroupProps \<Rightarrow> Stack \<Rightarrow> (ref \<times> Stack) option" where
  "new_ApplicationTargetGroup i props s =
     do { s \<leftarrow> addChild i s;
          Some (i, s\<lparr>targetGroups := targetGroups s @
                       [(i, \<lparr>tg_props = props, tg_listeners = [],
                             connectableMembers = []\<rparr>)]\<rparr>) }"

text \<open>
  A listener learns of a service behind one of its target groups: the balancer's security
  group is allowed into the service's security groups on the service's port range.
\<close>

definition listener_registerConnectable ::
  "(ref \<times> string) \<Rightarrow> (ref \<times> Port) \<Rightarrow> Stack \<Rightarrow> Stack option" where
  "listener_registerConnectable listener member s =
     (case (map_of (loadBalancers s) (fst listener), map_of (services s) (fst member)) of
        (Some b, Some v) \<Rightarrow>
          allowFrom (svc_securityGroups (svc_props v))
            [SecurityGroupPeer (alb_securityGroup (alb_props b))] (snd member)
            ''Load balancer to target'' s
      | _ \<Rightarrow> None)"

text \<open>
  A target group is told of a listener that forwards to it, and of a service attached to
  it. Either way every listener of the group learns of every service of the group.
\<close>

definition targetGroup_registerListener :: "(ref \<times> string) \<Rightarrow> ref \<Rightarrow> Stack \<Rightarrow> Stack option" where
  "targetGroup_registerListener listener tg s =
     (case map_of (targetGroups s) tg of
        None \<Rightarrow> None
      | Some g \<Rightarrow>
          forEach (listener_registerConnectable listener) (connectableMembers g)
            (s\<lparr>targetGroups :=
                 AList.update tg (g\<lparr>tg_listeners := tg_listeners g @ [listener]\<rparr>)
                   (targetGroups s)\<rparr>))"

definition targetGroup_registerConnectable :: "ref \<Rightarrow> (ref \<times> Port) \<Rightarrow> Stack \<Rightarrow> Stack option" where
  "targetGroup_registerConnectable tg member s =
     (case map_of (targetGroups s) tg of
        None \<Rightarrow> None
      | Some g \<Rightarrow>
          forEach (\<lambda>listener. listener_registerConnectable listener member) (tg_listeners g)
            (s\<lparr>targetGroups :=
                 AList.update tg (g\<lparr>connectableMembers := connectableMembers g @ [member]\<rparr>)
                   (targetGroups s)\<rparr>))"

text \<open>
  \<open>listener.addTargetGroups(id, props)\<close>: with a priority the target groups become a rule
  of that priority; without one they become the listener's default action, which takes
  every request no rule matches. The target groups are told of the listener.
\<close>

definition addTargetGroups_listener ::
  "string \<Rightarrow> AddApplicationTargetGroupsProps \<Rightarrow> ApplicationListener \<Rightarrow> ApplicationListener" where
  "addTargetGroups_listener i props l =
     (case atg_priority props of
        Some p \<Rightarrow>
          l\<lparr>listenerRules := listenerRules l @
               [\<lparr>lr_id = i, lr_priority = p, lr_action = forward (atg_targetGroups props)\<rparr>]\<rparr>
      | None \<Rightarrow> l\<lparr>defaultAction := Some (forward (atg_targetGroups props))\<rparr>)"

definition addTargetGroups ::
  "(ref \<times> string) \<Rightarrow> string \<Rightarrow> AddApplicationTargetGroupsProps \<Rightarrow> Stack \<Rightarrow> Stack option" where
  "addTargetGroups listener i props s =
     (case map_of (loadBalancers s) (fst listener) of
        None \<Rightarrow> None
      | Some b \<Rightarrow>
          if snd listener \<in> set (map l_id (listeners b)) then
            forEach (targetGroup_registerListener listener) (atg_targetGroups props)
              (s\<lparr>loadBalancers :=
                   AList.update (fst listener)
                     (b\<lparr>listeners :=
                          map (\<lambda>l. if l_id l = snd listener
                                    then addTargetGroups_listener i props l else l)
                            (listeners b)\<rparr>)
                     (loadBalancers s)\<rparr>)
          else None)"

definition new_Cluster :: "ref \<Rightarrow> ClusterProps \<Rightarrow> Stack \<Rightarrow> (ref \<times> Stack) option" where
  "new_Cluster i props s =
     do { s \<leftarrow> addChild i s; Some (i, s\<lparr>clusters := clusters s @ [(i, props)]\<rparr>) }"

definition new_FargateTaskDefinition ::
  "ref \<Rightarrow> FargateTaskDefinitionProps \<Rightarrow> Stack \<Rightarrow> (ref \<times> Stack) option" where
  "new_FargateTaskDefinition i props s =
     do { s \<leftarrow> addChild i s;
          Some (i, s\<lparr>taskDefinitions :=
                       taskDefinitions s @ [(i, \<lparr>td_props = props, containers = []\<rparr>)]\<rparr>) }"

text \<open>An image built from a directory needs the directory; an image of a registry does not.\<close>

fun imageAvailable :: "Host \<Rightarrow> ContainerImage \<Rightarrow> bool" where
  "imageAvailable host (fromAsset directory) = (directory \<in> set (imageDirectories host))"
| "imageAvailable host (fromRegistry _) = True"

text \<open>
  \<open>taskDefinition.addContainer(id, props)\<close>: the container is a child of the task
  definition and starts with no port mapping.
\<close>

definition addContainer ::
  "ref \<Rightarrow> string \<Rightarrow> ContainerDefinitionOptions \<Rightarrow> Stack \<Rightarrow> ((ref \<times> string) \<times> Stack) option" where
  "addContainer td i props s =
     (case map_of (taskDefinitions s) td of
        None \<Rightarrow> None
      | Some t \<Rightarrow>
          if i \<in> set (map cd_id (containers t)) then None
          else if imageAvailable (stackHost s) (image props) then
            Some ((td, i),
              s\<lparr>taskDefinitions :=
                  AList.update td
                    (t\<lparr>containers := containers t @
                         [\<lparr>cd_id = i, cd_props = props, portMappings = []\<rparr>]\<rparr>)
                    (taskDefinitions s)\<rparr>)
          else None)"

text \<open>
  \<open>container.addPortMappings(mapping)\<close>: in the network mode of a Fargate task a host port
  is left out or equal to the container port.
\<close>

definition validPortMapping :: "PortMapping \<Rightarrow> bool" where
  "validPortMapping m = (case hostPort m of None \<Rightarrow> True | Some h \<Rightarrow> h = containerPort m)"

definition addPortMappings :: "(ref \<times> string) \<Rightarrow> PortMapping \<Rightarrow> Stack \<Rightarrow> Stack option" where
  "addPortMappings container m s =
     (case map_of (taskDefinitions s) (fst container) of
        None \<Rightarrow> None
      | Some t \<Rightarrow>
          if snd container \<in> set (map cd_id (containers t)) \<and> validPortMapping m then
            Some (s\<lparr>taskDefinitions :=
                      AList.update (fst container)
                        (t\<lparr>containers :=
                             map (\<lambda>c. if cd_id c = snd container
                                       then c\<lparr>portMappings := portMappings c @ [m]\<rparr> else c)
                               (containers t)\<rparr>)
                        (taskDefinitions s)\<rparr>)
          else None)"

text \<open>
  The default container of a task definition is the first one added to it (the stacks'
  containers are essential, which is the default).
\<close>

definition defaultContainer :: "Stack \<Rightarrow> ref \<Rightarrow> ContainerDefinition option" where
  "defaultContainer s td =
     (case map_of (taskDefinitions s) td of
        None \<Rightarrow> None
      | Some t \<Rightarrow> (case containers t of [] \<Rightarrow> None | c # _ \<Rightarrow> Some c))"

definition new_FargateService ::
  "ref \<Rightarrow> FargateServiceProps \<Rightarrow> Stack \<Rightarrow> (ref \<times> Stack) option" where
  "new_FargateService i props s =
     (case defaultContainer s (svc_taskDefinition props) of
        None \<Rightarrow> None
      | Some _ \<Rightarrow>
          do { s \<leftarrow> addChild i s;
               Some (i, s\<lparr>services := services s @
                            [(i, \<lparr>svc_props = props, attachedTargetGroups = []\<rparr>)]\<rparr>) })"

text \<open>
  The port range a load balancer reaches a container on: the host port of the container's
  first port mapping when there is one and it is not 0, its container port otherwise.
\<close>

definition portRangeFromPortMapping :: "PortMapping \<Rightarrow> Port" where
  "portRangeFromPortMapping m =
     (case hostPort m of
        None \<Rightarrow> Port_tcp (containerPort m)
      | Some h \<Rightarrow> if h = 0 then Port_tcp (containerPort m) else Port_tcp h)"

text \<open>
  \<open>service.attachToApplicationTargetGroup(targetGroup)\<close>: the target is the default
  container of the service's task definition, on its first port mapping. The target group
  is told of the service, and the service records the target group its tasks register
  into.
\<close>

definition attachToApplicationTargetGroup :: "ref \<Rightarrow> ref \<Rightarrow> Stack \<Rightarrow> Stack option" where
  "attachToApplicationTargetGroup svc tg s =
     (case map_of (services s) svc of
        None \<Rightarrow> None
      | Some v \<Rightarrow>
          (case defaultContainer s (svc_taskDefinition (svc_props v)) of
             None \<Rightarrow> None
           | Some c \<Rightarrow>
               (case portMappings c of
                  [] \<Rightarrow> None
                | m # _ \<Rightarrow>
                    do {
                      s \<leftarrow> targetGroup_registerConnectable tg
                             (svc, portRangeFromPortMapping m) s;
                      Some (s\<lparr>services :=
                                AList.map_entry svc
                                  (\<lambda>v. v\<lparr>attachedTargetGroups :=
                                            attachedTargetGroups v @ [tg]\<rparr>)
                                  (services s)\<rparr>)
                    })))"

definition new_ARecord :: "ref \<Rightarrow> ARecordProps \<Rightarrow> Stack \<Rightarrow> (ref \<times> Stack) option" where
  "new_ARecord i props s =
     do { s \<leftarrow> addChild i s; Some (i, s\<lparr>aRecords := aRecords s @ [(i, props)]\<rparr>) }"

section \<open>The first-generation stack: \<open>lib/aws-cdk-ec2-stack.ts\<close>\<close>

text \<open>
  The module fixes the domain name and the prefix of all resource names as constants; the
  constructor has the parameters \<open>scope\<close>, \<open>id\<close> and \<open>props\<close>, which it hands to the
  stack's own constructor. The machine it runs on is a parameter of the model.
\<close>

definition domainName :: string where
  "domainName = ''nikolatec.com''"

definition projectName :: string where
  "projectName = ''backend-api''"

definition AwsCdkEc2Stack ::
  "Host \<Rightarrow> Construct \<Rightarrow> string \<Rightarrow> StackProps option \<Rightarrow> Stack option" where
  "AwsCdkEc2Stack host scope i props =
     do {
       this \<leftarrow> new_Stack host scope i props;
       (vpc, this) \<leftarrow> new_Vpc (projectName @ ''-vpc'')
          \<lparr>cidr = ''10.1.0.0/16'',
           vpcName = projectName @ ''-vpc'',
           enableDnsHostnames = True,
           enableDnsSupport = True,
           subnetConfiguration =
             [\<lparr>cidrMask = 24, subnetName = ''PublicSubnet'', subnetType = PUBLIC\<rparr>,
              \<lparr>cidrMask = 24, subnetName = ''PrivateIsolatedSubnet'',
               subnetType = PRIVATE_ISOLATED\<rparr>]\<rparr> this;
       (securityGroupELB, this) \<leftarrow> new_SecurityGroup (projectName @ ''-security-group-elb'')
          \<lparr>sg_vpc = vpc, securityGroupName = projectName @ ''-security-group-elb''\<rparr> this;
       this \<leftarrow> addIngressRule securityGroupELB
          (Peer_ipv4 ''0.0.0.0/0'') (Port_tcp 443) ''allow HTTPS traffic from anywhere'' this;
       (securityGroupApp, this) \<leftarrow> new_SecurityGroup (projectName @ ''-security-group-app'')
          \<lparr>sg_vpc = vpc, securityGroupName = projectName @ ''-security-group-app''\<rparr> this;
       (hostedZone, this) \<leftarrow> HostedZone_fromLookup (projectName @ ''-hosted-zone'')
          \<lparr>hz_domainName = domainName\<rparr> this;
       (cert, this) \<leftarrow> new_DnsValidatedCertificate (projectName @ ''-certificate'')
          \<lparr>certificateName = None,
           cert_domainName = domainName,
           cert_hostedZone = hostedZone,
           cert_region = Some ''us-east-1''\<rparr> this;
       (alb, this) \<leftarrow> new_ApplicationLoadBalancer (projectName @ ''-alb'')
          \<lparr>alb_vpc = vpc,
           internetFacing = True,
           alb_securityGroup = securityGroupELB,
           loadBalancerName = projectName @ ''-alb''\<rparr> this;
       (listenerHTTP, this) \<leftarrow> addListener alb (projectName @ ''-listener-http'')
          \<lparr>l_port = 443,
           l_certificates = [\<lparr>lc_certificateArn = certificateArn cert\<rparr>]\<rparr> this;
       (targetGroup, this) \<leftarrow> new_ApplicationTargetGroup (projectName @ ''-target-group'')
          \<lparr>tg_vpc = vpc,
           tg_port = 3000,
           targetType = IP,
           tg_protocol = HTTP,
           targetGroupName = projectName @ ''-target-group'',
           healthCheck = \<lparr>hc_path = Some ''/'', healthyHttpCodes = Some ''200''\<rparr>\<rparr> this;
       this \<leftarrow> addTargetGroups listenerHTTP (projectName @ ''-default-https-response'')
          \<lparr>atg_targetGroups = [targetGroup], atg_priority = None\<rparr> this;
       (cluster, this) \<leftarrow> new_Cluster (projectName @ ''-cluster'')
          \<lparr>cl_vpc = vpc, clusterName = projectName @ ''-cluster''\<rparr> this;
       (fargateTaskDefinition, this) \<leftarrow> new_FargateTaskDefinition (projectName @ ''-task-def'')
          \<lparr>memoryLimitMiB = 1024, cpu = 512\<rparr> this;
       (container, this) \<leftarrow> addContainer fargateTaskDefinition (projectName @ ''-container'')
          \<lparr>containerName = projectName @ ''-container'',
           image = fromAsset ''../backend-api'',
           logging = Some (awsLogs \<lparr>streamPrefix = ''nest-app'',
                                    logRetention = Some ONE_MONTH\<rparr>)\<rparr> this;
       this \<leftarrow> addPortMappings container
          \<lparr>containerPort = 3000, hostPort = Some 3000\<rparr> this;
       (service, this) \<leftarrow> new_FargateService (projectName @ ''-service'')
          \<lparr>svc_cluster = cluster,
           serviceName = projectName @ ''-service'',
           svc_taskDefinition = fargateTaskDefinition,
           desiredCount = 1,
           assignPublicIp = True,
           svc_securityGroups = [securityGroupApp]\<rparr> this;
       this \<leftarrow> attachToApplicationTargetGroup service targetGroup this;
       (_, this) \<leftarrow> new_ARecord (projectName @ ''-alias-record'')
          \<lparr>rec_zone = hostedZone,
           recordName = ''backend.'' @ domainName,
           rec_target = fromAlias (LoadBalancerTarget alb)\<rparr> this;
       Some this
     }"

text \<open>
  The entry script \<open>bin/aws-cdk-ec2.ts\<close>: one stack, with the id \<open>AwsCdkEc2Stack\<close> and no
  properties, in a new app.
\<close>

definition aws_cdk_ec2 :: "Host \<Rightarrow> Stack option" where
  "aws_cdk_ec2 host = AwsCdkEc2Stack host App ''AwsCdkEc2Stack'' None"

section \<open>The second-generation stack\<close>

text \<open>
  The second module has constants of its own, with the same values, and the same
  constructor except that the certificate is given a name.
\<close>

definition fargate_domainName :: string where
  "fargate_domainName = ''nikolatec.com''"

definition fargate_projectName :: string where
  "fargate_projectName = ''backend-api''"

definition AwsCdkFargateStack ::
  "Host \<Rightarrow> Construct \<Rightarrow> string \<Rightarrow> StackProps option \<Rightarrow> Stack option" where
  "AwsCdkFargateStack host scope i props =
     do {
       this \<leftarrow> new_Stack host scope i props;
       (vpc, this) \<leftarrow> new_Vpc (fargate_projectName @ ''-vpc'')
          \<lparr>cidr = ''10.1.0.0/16'',
           vpcName = fargate_projectName @ ''-vpc'',
           enableDnsHostnames = True,
           enableDnsSupport = True,
           subnetConfiguration =
             [\<lparr>cidrMask = 24, subnetName = ''PublicSubnet'', subnetType = PUBLIC\<rparr>,
              \<lparr>cidrMask = 24, subnetName = ''PrivateIsolatedSubnet'',
               subnetType = PRIVATE_ISOLATED\<rparr>]\<rparr> this;
       (securityGroupELB, this) \<leftarrow> new_SecurityGroup (fargate_projectName @ ''-security-group-elb'')
          \<lparr>sg_vpc = vpc, securityGroupName = fargate_projectName @ ''-security-group-elb''\<rparr> this;
       this \<leftarrow> addIngressRule securityGroupELB
          (Peer_ipv4 ''0.0.0.0/0'') (Port_tcp 443) ''allow HTTPS traffic from anywhere'' this;
       (securityGroupApp, this) \<leftarrow> new_SecurityGroup (fargate_projectName @ ''-security-group-app'')
          \<lparr>sg_vpc = vpc, securityGroupName = fargate_projectName @ ''-security-group-app''\<rparr> this;
       (hostedZone, this) \<leftarrow> HostedZone_fromLookup (fargate_projectName @ ''-hosted-zone'')
          \<lparr>hz_domainName = fargate_domainName\<rparr> this;
       (cert, this) \<leftarrow> new_DnsValidatedCertificate (fargate_projectName @ ''-certificate'')
          \<lparr>certificateName = Some (fargate_projectName @ ''-certificate''),
           cert_domainName = fargate_domainName,
           cert_hostedZone = hostedZone,
           cert_region = Some ''us-east-1''\<rparr> this;
       (alb, this) \<leftarrow> new_ApplicationLoadBalancer (fargate_projectName @ ''-alb'')
          \<lparr>alb_vpc = vpc,
           internetFacing = True,
           alb_securityGroup = securityGroupELB,
           loadBalancerName = fargate_projectName @ ''-alb''\<rparr> this;
       (listenerHTTP, this) \<leftarrow> addListener alb (fargate_projectName @ ''-listener-http'')
          \<lparr>l_port = 443,
           l_certificates = [\<lparr>lc_certificateArn = certificateArn cert\<rparr>]\<rparr> this;
       (targetGroup, this) \<leftarrow> new_ApplicationTargetGroup (fargate_projectName @ ''-target-group'')
          \<lparr>tg_vpc = vpc,
           tg_port = 3000,
           targetType = IP,
           tg_protocol = HTTP,
           targetGroupName = fargate_projectName @ ''-target-group'',
           healthCheck = \<lparr>hc_path = Some ''/'', healthyHttpCodes = Some ''200''\<rparr>\<rparr> this;
       this \<leftarrow> addTargetGroups listenerHTTP (fargate_projectName @ ''-default-https-response'')
          \<lparr>atg_targetGroups = [targetGroup], atg_priority = None\<rparr> this;
       (cluster, this) \<leftarrow> new_Cluster (fargate_projectName @ ''-cluster'')
          \<lparr>cl_vpc = vpc, clusterName = fargate_projectName @ ''-cluster''\<rparr> this;
       (fargateTaskDefinition, this) \<leftarrow> new_FargateTaskDefinition (fargate_projectName @ ''-task-def'')
          \<lparr>memoryLimitMiB = 1024, cpu = 512\<rparr> this;
       (container, this) \<leftarrow> addContainer fargateTaskDefinition (fargate_projectName @ ''-container'')
          \<lparr>containerName = fargate_projectName @ ''-container'',
           image = fromAsset ''../backend-api'',
           logging = Some (awsLogs \<lparr>streamPrefix = ''nest-app'',
                                    logRetention = Some ONE_MONTH\<rparr>)\<rparr> this;
       this \<leftarrow> addPortMappings container
          \<lparr>containerPort = 3000, hostPort = Some 3000\<rparr> this;
       (service, this) \<leftarrow> new_FargateService (fargate_projectName @ ''-service'')
          \<lparr>svc_cluster = cluster,
           serviceName = fargate_projectName @ ''-service'',
           svc_taskDefinition = fargateTaskDefinition,
           desiredCount = 1,
           assignPublicIp = True,
           svc_securityGroups = [securityGroupApp]\<rparr> this;
       this \<leftarrow> attachToApplicationTargetGroup service targetGroup this;
       (_, this) \<leftarrow> new_ARecord (fargate_projectName @ ''-alias-record'')
          \<lparr>rec_zone = hostedZone,
           recordName = ''backend.'' @ fargate_domainName,
           rec_target = fromAlias (LoadBalancerTarget alb)\<rparr> this;
       Some this
     }"

text \<open>A stack with the name of every certificate taken away.\<close>

definition withoutCertificateName :: "Stack \<Rightarrow> Stack" where
  "withoutCertificateName s =
     s\<lparr>certificates := map (\<lambda>(i, c). (i, c\<lparr>certificateName := None\<rparr>)) (certificates s)\<rparr>"

section \<open>The two variants and their inputs\<close>

text \<open>
  The properties below hold of both classes. \<open>stackOf\<close> selects the class of a variant,
  \<open>prefixOf\<close> and \<open>domainOf\<close> the prefix and the domain its module fixes.
\<close>

datatype Variant = FirstGeneration | SecondGeneration

fun stackOf ::
  "Variant \<Rightarrow> Host \<Rightarrow> Construct \<Rightarrow> string \<Rightarrow> StackProps option \<Rightarrow> Stack option" where
  "stackOf FirstGeneration = AwsCdkEc2Stack"
| "stackOf SecondGeneration = AwsCdkFargateStack"

fun prefixOf :: "Variant \<Rightarrow> string" where
  "prefixOf FirstGeneration = projectName"
| "prefixOf SecondGeneration = fargate_projectName"

fun domainOf :: "Variant \<Rightarrow> string" where
  "domainOf FirstGeneration = domainName"
| "domainOf SecondGeneration = fargate_domainName"

text \<open>
  Inputs at which the constructors return a stack: a valid stack name as id, an
  environment with an account and a region known at construction, and the build context
  of the container image in place.
\<close>

definition admissible :: "Host \<Rightarrow> string \<Rightarrow> StackProps option \<Rightarrow> bool" where
  "admissible host i props =
     (validStackName i \<and> known (envAccount props) \<and> known (envRegion props)
      \<and> ''../backend-api'' \<in> set (imageDirectories host))"

text \<open>Inputs to try the constructors on.\<close>

definition exampleHost :: Host where
  "exampleHost = \<lparr>imageDirectories = [''../backend-api'']\<rparr>"

definition exampleProps :: "StackProps option" where
  "exampleProps =
     Some \<lparr>env = Some \<lparr>account = Some ''123456789012'', region = Some ''eu-central-1''\<rparr>\<rparr>"

section \<open>Properties of the constructed stacks\<close>

lemmas library_defs =
  new_Stack_def addChild_def new_Vpc_def new_SecurityGroup_def
  securityGroup_addIngressRule_def addIngressRule_def allowFrom_def
  hasIngressRule_def addRule_def addRuleToGroup_def
  HostedZone_fromLookup_def new_DnsValidatedCertificate_def new_ApplicationLoadBalancer_def
  addListener_def new_ApplicationTargetGroup_def listener_registerConnectable_def
  targetGroup_registerListener_def targetGroup_registerConnectable_def
  addTargetGroups_listener_def addTargetGroups_def new_Cluster_def
  new_FargateTaskDefinition_def addContainer_def validPortMapping_def addPortMappings_def
  defaultContainer_def new_FargateService_def portRangeFromPortMapping_def
  attachToApplicationTargetGroup_def new_ARecord_def
  Peer_ipv4_def Peer_anyIpv4_def Port_tcp_def certificateArn_def

lemmas constant_defs =
  domainName_def projectName_def fargate_domainName_def fargate_projectName_def

lemmas stack_defs = AwsCdkEc2Stack_def AwsCdkFargateStack_def

text \<open>A security group never holds two rules for one peer and port range.\<close>

lemma addRule_idem: "addRule r (addRule r rules) = addRule r rules"
  by (simp add: addRule_def hasIngressRule_def)

lemma addRule_same_peer_and_port:
  "rulePeer r' = rulePeer r \<Longrightarrow> ruleConnection r' = ruleConnection r
   \<Longrightarrow> addRule r' (addRule r rules) = addRule r rules"
  by (simp add: addRule_def hasIngressRule_def)

lemma addRule_distinct:
  "distinct (map (\<lambda>x. (rulePeer x, ruleConnection x)) rules)
   \<Longrightarrow> distinct (map (\<lambda>x. (rulePeer x, ruleConnection x)) (addRule r rules))"
  by (simp add: addRule_def hasIngressRule_def)

text \<open>
  Asking a security group twice for a rule with the same peer and port range leaves it
  with what the first call gave, whoever asks and whatever the description.
\<close>

lemma securityGroup_addIngressRule_twice:
  assumes "securityGroup_addIngressRule o1 sg peer connection d1 s = Some s1"
  shows "securityGroup_addIngressRule o2 sg peer connection d2 s1 = Some s1"
proof -
  from assms obtain g where g: "map_of (securityGroups s) sg = Some g"
    by (auto simp add: securityGroup_addIngressRule_def split: option.splits)
  define r1 where "r1 = \<lparr>rulePeer = peer, ruleConnection = connection,
    ruleDescription = d1, ruleOrigin = o1\<rparr>"
  define r2 where "r2 = \<lparr>rulePeer = peer, ruleConnection = connection,
    ruleDescription = d2, ruleOrigin = o2\<rparr>"
  from assms g have s1: "s1 = s\<lparr>securityGroups :=
      AList.update sg (addRuleToGroup r1 g) (securityGroups s)\<rparr>"
    by (simp add: securityGroup_addIngressRule_def r1_def)
  have same: "addRuleToGroup r2 (addRuleToGroup r1 g) = addRuleToGroup r1 g"
    by (simp add: addRuleToGroup_def addRule_def hasIngressRule_def r1_def r2_def)
  have "map_of (securityGroups s1) sg = Some (addRuleToGroup r1 g)"
    by (simp add: s1 update_conv')
  then show ?thesis
    by (simp add: securityGroup_addIngressRule_def same s1 flip: r2_def)
qed

text \<open>
  A listener added to a balancer whose security group has no rule yet opens its port from
  anywhere in that group.
\<close>

lemma addListener_opens_port:
  assumes "map_of (loadBalancers s) alb = Some b"
    and "map_of (securityGroups s) (alb_securityGroup (alb_props b)) = Some g"
    and "ingressRules g = []"
    and "i \<notin> set (map l_id (listeners b))"
  shows "\<exists>s' g'. addListener alb i props s = Some ((alb, i), s')
     \<and> map_of (securityGroups s') (alb_securityGroup (alb_props b)) = Some g'
     \<and> ingressRules g' =
         [\<lparr>rulePeer = CidrIPv4 ''0.0.0.0/0'', ruleConnection = Port_tcp (l_port props),
           ruleDescription = ''Allow from anyone on port '' @ decimal (l_port props),
           ruleOrigin = Derived\<rparr>]"
  using assms
  by (simp add: addListener_def allowFrom_def securityGroup_addIngressRule_def
      addRuleToGroup_def addRule_def hasIngressRule_def Peer_anyIpv4_def update_conv')

lemma decimal_443: "decimal 443 = ''443''"
  by (simp add: decimal.simps)

lemma httpCodes_200: "httpCodes ''200'' = Some [200]"
  by (simp add: httpCodes_def codeRange_def statusCode_def digit_def)

text \<open>
  Each constructor returns a stack at the admissible inputs. It returns none for a stack
  without account or region, without the container's build context, or with an id that is
  empty or does not start with a letter. The entry script passes no properties, so its
  stack has no account and no region, and the constructor stops at the hosted-zone lookup.
\<close>

lemma stackOf_constructs:
  "admissible host i props \<Longrightarrow> \<exists>s. stackOf v host scope i props = Some s"
  by (cases v) (simp_all add: stack_defs library_defs constant_defs admissible_def)

lemma stackOf_needs_environment:
  "envAccount props = None \<or> envRegion props = None
   \<Longrightarrow> stackOf v host scope i props = None"
  by (cases v) (auto simp add: stack_defs library_defs constant_defs)

lemma stackOf_needs_image_directory:
  "''../backend-api'' \<notin> set (imageDirectories host)
   \<Longrightarrow> stackOf v host scope i props = None"
  by (cases v) (auto simp add: stack_defs library_defs constant_defs split: if_splits)

lemma stackOf_needs_valid_id:
  "i = [] \<or> hd i \<notin> set letters \<Longrightarrow> stackOf v host scope i props = None"
  by (cases v; cases i) (auto simp add: stack_defs new_Stack_def validStackName_def)

lemma aws_cdk_ec2_fails: "aws_cdk_ec2 host = None"
  by (simp add: aws_cdk_ec2_def stack_defs library_defs)

lemma exampleInputs_admissible: "admissible exampleHost ''AwsCdkEc2Stack'' exampleProps"
  by (simp add: admissible_def exampleHost_def exampleProps_def validStackName_def letters_def)

text \<open>
  C1. At admissible inputs both constructors return a stack, and the two stacks declare
  the same resources with the same attributes, but for the certificate's name: the
  second-generation stack with the certificate's name taken away is the first-generation
  stack; the second-generation stack names its one certificate, the first-generation
  stack does not.
\<close>

theorem variants_equal_up_to_certificateName:
  assumes "admissible host i props"
  shows "\<exists>s1 s2 c1 c2.
     AwsCdkEc2Stack host scope i props = Some s1
     \<and> AwsCdkFargateStack host scope i props = Some s2
     \<and> withoutCertificateName s2 = s1
     \<and> certificates s1 = [(projectName @ ''-certificate'', c1)]
     \<and> certificateName c1 = None
     \<and> certificates s2 = [(fargate_projectName @ ''-certificate'', c2)]
     \<and> certificateName c2 = Some (fargate_projectName @ ''-certificate'')"
  using assms
  by (simp add: stack_defs library_defs constant_defs admissible_def withoutCertificateName_def)

theorem variants_equal_up_to_certificateName_witness:
  "admissible exampleHost ''AwsCdkEc2Stack'' exampleProps
   \<and> (\<exists>s1 s2 c1 c2.
     AwsCdkEc2Stack exampleHost App ''AwsCdkEc2Stack'' exampleProps = Some s1
     \<and> AwsCdkFargateStack exampleHost App ''AwsCdkEc2Stack'' exampleProps = Some s2
     \<and> withoutCertificateName s2 = s1
     \<and> certificates s1 = [(projectName @ ''-certificate'', c1)]
     \<and> certificateName c1 = None
     \<and> certificates s2 = [(fargate_projectName @ ''-certificate'', c2)]
     \<and> certificateName c2 = Some (fargate_projectName @ ''-certificate''))"
proof -
  have inputs: "admissible exampleHost ''AwsCdkEc2Stack'' exampleProps"
    by (simp add: admissible_def exampleHost_def exampleProps_def validStackName_def
        letters_def)
  from inputs variants_equal_up_to_certificateName [where scope = App, OF inputs]
  show ?thesis by (rule conjI)
qed

text \<open>
  C2. In either stack the security group \<open>securityGroupELB\<close>, which is the one the load
  balancer is given, has exactly one ingress rule: protocol TCP, port 443, source
  0.0.0.0/0. It is the rule the stack declares; the rule of the open listener is the same
  and adds nothing.
\<close>

theorem securityGroupELB_one_ingress_rule:
  assumes "admissible host i props"
  shows "\<exists>s g r b.
     stackOf v host scope i props = Some s
     \<and> map_of (securityGroups s) (prefixOf v @ ''-security-group-elb'') = Some g
     \<and> map_of (loadBalancers s) (prefixOf v @ ''-alb'') = Some b
     \<and> alb_securityGroup (alb_props b) = prefixOf v @ ''-security-group-elb''
     \<and> ingressRules g = [r]
     \<and> ingressResources g = []
     \<and> protocol (ruleConnection r) = TCP
     \<and> fromPort (ruleConnection r) = 443
     \<and> toPort (ruleConnection r) = 443
     \<and> rulePeer r = CidrIPv4 ''0.0.0.0/0''
     \<and> ruleOrigin r = Declared"
  using assms
  by (cases v)
    (simp_all add: stack_defs library_defs constant_defs admissible_def)

theorem securityGroupELB_one_ingress_rule_witness:
  "admissible exampleHost ''AwsCdkEc2Stack'' exampleProps
   \<and> (\<exists>s g r b.
     stackOf FirstGeneration exampleHost App ''AwsCdkEc2Stack'' exampleProps = Some s
     \<and> map_of (securityGroups s) (prefixOf FirstGeneration @ ''-security-group-elb'') = Some g
     \<and> map_of (loadBalancers s) (prefixOf FirstGeneration @ ''-alb'') = Some b
     \<and> alb_securityGroup (alb_props b) = prefixOf FirstGeneration @ ''-security-group-elb''
     \<and> ingressRules g = [r]
     \<and> ingressResources g = []
     \<and> protocol (ruleConnection r) = TCP
     \<and> fromPort (ruleConnection r) = 443
     \<and> toPort (ruleConnection r) = 443
     \<and> rulePeer r = CidrIPv4 ''0.0.0.0/0''
     \<and> ruleOrigin r = Declared)"
proof -
  have inputs: "admissible exampleHost ''AwsCdkEc2Stack'' exampleProps"
    by (simp add: admissible_def exampleHost_def exampleProps_def validStackName_def
        letters_def)
  from inputs securityGroupELB_one_ingress_rule [where scope = App and v = FirstGeneration, OF inputs]
  show ?thesis by (rule conjI)
qed

text \<open>
  C3. In either stack the security group \<open>securityGroupApp\<close>, which is the one the service
  is given, has no ingress rule that the stack declares. Its one ingress rule is derived
  by the library when the service is attached to the target group: the balancer's
  security group, TCP, port 3000.
\<close>

theorem securityGroupApp_no_explicit_ingress_rule:
  assumes "admissible host i props"
  shows "\<exists>s g svc r.
     stackOf v host scope i props = Some s
     \<and> map_of (securityGroups s) (prefixOf v @ ''-security-group-app'') = Some g
     \<and> map_of (services s) (prefixOf v @ ''-service'') = Some svc
     \<and> svc_securityGroups (svc_props svc) = [prefixOf v @ ''-security-group-app'']
     \<and> filter (\<lambda>x. ruleOrigin x = Declared) (ingressRules g @ ingressResources g) = []
     \<and> ingressRules g = []
     \<and> ingressResources g = [r]
     \<and> ruleOrigin r = Derived
     \<and> rulePeer r = SecurityGroupPeer (prefixOf v @ ''-security-group-elb'')
     \<and> ruleConnection r = \<lparr>protocol = TCP, fromPort = 3000, toPort = 3000\<rparr>"
  using assms
  by (cases v)
    (simp_all add: stack_defs library_defs constant_defs admissible_def)

theorem securityGroupApp_no_explicit_ingress_rule_witness:
  "admissible exampleHost ''AwsCdkEc2Stack'' exampleProps
   \<and> (\<exists>s g svc r.
     stackOf FirstGeneration exampleHost App ''AwsCdkEc2Stack'' exampleProps = Some s
     \<and> map_of (securityGroups s) (prefixOf FirstGeneration @ ''-security-group-app'') = Some g
     \<and> map_of (services s) (prefixOf FirstGeneration @ ''-service'') = Some svc
     \<and> svc_securityGroups (svc_props svc) = [prefixOf FirstGeneration @ ''-security-group-app'']
     \<and> filter (\<lambda>x. ruleOrigin x = Declared) (ingressRules g @ ingressResources g) = []
     \<and> ingressRules g = []
     \<and> ingressResources g = [r]
     \<and> ruleOrigin r = Derived
     \<and> rulePeer r = SecurityGroupPeer (prefixOf FirstGeneration @ ''-security-group-elb'')
     \<and> ruleConnection r = \<lparr>protocol = TCP, fromPort = 3000, toPort = 3000\<rparr>)"
proof -
  have inputs: "admissible exampleHost ''AwsCdkEc2Stack'' exampleProps"
    by (simp add: admissible_def exampleHost_def exampleProps_def validStackName_def
        letters_def)
  from inputs securityGroupApp_no_explicit_ingress_rule [where scope = App and v = FirstGeneration, OF inputs]
  show ?thesis by (rule conjI)
qed

text \<open>
  C4, as the claim states it. The constructors take a scope, an id and properties; there
  is no input for a domain or a prefix. At the example inputs the first-generation stack
  has a target group named \<open>backend-api-target-group\<close>, not \<open>svc-target-group\<close>, a DNS
  record named \<open>backend.nikolatec.com\<close>, not \<open>backend.example.com\<close>, and a load balancer
  named \<open>backend-api-alb\<close>, not \<open>svc-alb\<close>.
\<close>

theorem names_not_parameters:
  "map_option (map (targetGroupName \<circ> tg_props \<circ> snd) \<circ> targetGroups)
     (AwsCdkEc2Stack exampleHost App ''AwsCdkEc2Stack'' exampleProps)
     = Some [''backend-api-target-group'']
   \<and> map_option (map (targetGroupName \<circ> tg_props \<circ> snd) \<circ> targetGroups)
     (AwsCdkEc2Stack exampleHost App ''AwsCdkEc2Stack'' exampleProps)
     \<noteq> Some [''svc-target-group'']
   \<and> map_option (map (recordName \<circ> snd) \<circ> aRecords)
     (AwsCdkEc2Stack exampleHost App ''AwsCdkEc2Stack'' exampleProps)
     = Some [''backend.nikolatec.com'']
   \<and> map_option (map (recordName \<circ> snd) \<circ> aRecords)
     (AwsCdkEc2Stack exampleHost App ''AwsCdkEc2Stack'' exampleProps)
     \<noteq> Some [''backend.example.com'']
   \<and> map_option (map (loadBalancerName \<circ> alb_props \<circ> snd) \<circ> loadBalancers)
     (AwsCdkEc2Stack exampleHost App ''AwsCdkEc2Stack'' exampleProps)
     = Some [''backend-api-alb'']
   \<and> map_option (map (loadBalancerName \<circ> alb_props \<circ> snd) \<circ> loadBalancers)
     (AwsCdkEc2Stack exampleHost App ''AwsCdkEc2Stack'' exampleProps)
     \<noteq> Some [''svc-alb'']"
  by (simp add: stack_defs library_defs constant_defs exampleHost_def exampleProps_def
      validStackName_def letters_def)


text \<open>
  C4, as amended. Domain and prefix are the constants \<open>nikolatec.com\<close> and
  \<open>backend-api\<close> of either module, not inputs of the constructor. At admissible inputs
  either stack has one target group, named \<open>backend-api-target-group\<close>, on port 3000 with
  health check path \<open>/\<close> and expected status 200, and one DNS record, named
  \<open>backend.nikolatec.com\<close>, that is an alias of the load balancer named
  \<open>backend-api-alb\<close>. Every name the stack derives is the prefix followed by a fixed
  suffix, and the record's name is \<open>backend.\<close> followed by the domain.
\<close>

theorem names_from_module_constants:
  assumes "admissible host i props"
  shows "\<exists>s g r b.
     stackOf v host scope i props = Some s
     \<and> prefixOf v = ''backend-api''
     \<and> domainOf v = ''nikolatec.com''
     \<and> targetGroups s = [(prefixOf v @ ''-target-group'', g)]
     \<and> targetGroupName (tg_props g) = ''backend-api-target-group''
     \<and> tg_port (tg_props g) = 3000
     \<and> hc_path (healthCheck (tg_props g)) = Some ''/''
     \<and> healthyHttpCodes (healthCheck (tg_props g)) = Some ''200''
     \<and> aRecords s = [(prefixOf v @ ''-alias-record'', r)]
     \<and> recordName r = ''backend.nikolatec.com''
     \<and> rec_target r = fromAlias (LoadBalancerTarget (prefixOf v @ ''-alb''))
     \<and> loadBalancers s = [(prefixOf v @ ''-alb'', b)]
     \<and> loadBalancerName (alb_props b) = ''backend-api-alb''
     \<and> map (vpcName \<circ> snd) (vpcs s) = [prefixOf v @ ''-vpc'']
     \<and> map (securityGroupName \<circ> sg_props \<circ> snd) (securityGroups s)
          = [prefixOf v @ ''-security-group-elb'', prefixOf v @ ''-security-group-app'']
     \<and> map (hz_domainName \<circ> snd) (hostedZones s) = [domainOf v]
     \<and> map (cert_domainName \<circ> snd) (certificates s) = [domainOf v]
     \<and> map (loadBalancerName \<circ> alb_props \<circ> snd) (loadBalancers s) = [prefixOf v @ ''-alb'']
     \<and> map (map l_id \<circ> listeners \<circ> snd) (loadBalancers s)
          = [[prefixOf v @ ''-listener-http'']]
     \<and> map (targetGroupName \<circ> tg_props \<circ> snd) (targetGroups s)
          = [prefixOf v @ ''-target-group'']
     \<and> map (clusterName \<circ> snd) (clusters s) = [prefixOf v @ ''-cluster'']
     \<and> map (map (containerName \<circ> cd_props) \<circ> containers \<circ> snd) (taskDefinitions s)
          = [[prefixOf v @ ''-container'']]
     \<and> map (serviceName \<circ> svc_props \<circ> snd) (services s) = [prefixOf v @ ''-service'']
     \<and> map (recordName \<circ> snd) (aRecords s) = [''backend.'' @ domainOf v]
     \<and> constructIds s
          = [prefixOf v @ ''-vpc'', prefixOf v @ ''-security-group-elb'',
             prefixOf v @ ''-security-group-app'', prefixOf v @ ''-hosted-zone'',
             prefixOf v @ ''-certificate'', prefixOf v @ ''-alb'',
             prefixOf v @ ''-target-group'', prefixOf v @ ''-cluster'',
             prefixOf v @ ''-task-def'', prefixOf v @ ''-service'',
             prefixOf v @ ''-alias-record'']"
  using assms
  by (cases v)
    (simp_all add: stack_defs library_defs constant_defs admissible_def)

theorem names_from_module_constants_witness:
  "admissible exampleHost ''AwsCdkEc2Stack'' exampleProps
   \<and> (\<exists>s g r b.
     stackOf FirstGeneration exampleHost App ''AwsCdkEc2Stack'' exampleProps = Some s
     \<and> prefixOf FirstGeneration = ''backend-api''
     \<and> domainOf FirstGeneration = ''nikolatec.com''
     \<and> targetGroups s = [(prefixOf FirstGeneration @ ''-target-group'', g)]
     \<and> targetGroupName (tg_props g) = ''backend-api-target-group''
     \<and> tg_port (tg_props g) = 3000
     \<and> hc_path (healthCheck (tg_props g)) = Some ''/''
     \<and> healthyHttpCodes (healthCheck (tg_props g)) = Some ''200''
     \<and> aRecords s = [(prefixOf FirstGeneration @ ''-alias-record'', r)]
     \<and> recordName r = ''backend.nikolatec.com''
     \<and> rec_target r = fromAlias (LoadBalancerTarget (prefixOf FirstGeneration @ ''-alb''))
     \<and> loadBalancers s = [(prefixOf FirstGeneration @ ''-alb'', b)]
     \<and> loadBalancerName (alb_props b) = ''backend-api-alb''
     \<and> map (vpcName \<circ> snd) (vpcs s) = [prefixOf FirstGeneration @ ''-vpc'']
     \<and> map (securityGroupName \<circ> sg_props \<circ> snd) (securityGroups s)
          = [prefixOf FirstGeneration @ ''-security-group-elb'', prefixOf FirstGeneration @ ''-security-group-app'']
     \<and> map (hz_domainName \<circ> snd) (hostedZones s) = [domainOf FirstGeneration]
     \<and> map (cert_domainName \<circ> snd) (certificates s) = [domainOf FirstGeneration]
     \<and> map (loadBalancerName \<circ> alb_props \<circ> snd) (loadBalancers s) = [prefixOf FirstGeneration @ ''-alb'']
     \<and> map (map l_id \<circ> listeners \<circ> snd) (loadBalancers s)
          = [[prefixOf FirstGeneration @ ''-listener-http'']]
     \<and> map (targetGroupName \<circ> tg_props \<circ> snd) (targetGroups s)
          = [prefixOf FirstGeneration @ ''-target-group'']
     \<and> map (clusterName \<circ> snd) (clusters s) = [prefixOf FirstGeneration @ ''-cluster'']
     \<and> map (map (containerName \<circ> cd_props) \<circ> containers \<circ> snd) (taskDefinitions s)
          = [[prefixOf FirstGeneration @ ''-container'']]
     \<and> map (serviceName \<circ> svc_props \<circ> snd) (services s) = [prefixOf FirstGeneration @ ''-service'']
     \<and> map (recordName \<circ> snd) (aRecords s) = [''backend.'' @ domainOf FirstGeneration]
     \<and> constructIds s
          = [prefixOf FirstGeneration @ ''-vpc'', prefixOf FirstGeneration @ ''-security-group-elb'',
             prefixOf FirstGeneration @ ''-security-group-app'', prefixOf FirstGeneration @ ''-hosted-zone'',
             prefixOf FirstGeneration @ ''-certificate'', prefixOf FirstGeneration @ ''-alb'',
             prefixOf FirstGeneration @ ''-target-group'', prefixOf FirstGeneration @ ''-cluster'',
             prefixOf FirstGeneration @ ''-task-def'', prefixOf FirstGeneration @ ''-service'',
             prefixOf FirstGeneration @ ''-alias-record''])"
proof -
  have inputs: "admissible exampleHost ''AwsCdkEc2Stack'' exampleProps"
    by (simp add: admissible_def exampleHost_def exampleProps_def validStackName_def
        letters_def)
  from inputs names_from_module_constants [where scope = App and v = FirstGeneration, OF inputs]
  show ?thesis by (rule conjI)
qed

text \<open>
  C5. In either stack the target group has health-check path \<open>/\<close>, accepts the status
  codes written \<open>200\<close>, that is the set {200}, forwards to port 3000, takes IP addresses
  as targets and speaks HTTP.
\<close>

theorem targetGroup_health_check:
  assumes "admissible host i props"
  shows "\<exists>s g codes.
     stackOf v host scope i props = Some s
     \<and> targetGroups s = [(prefixOf v @ ''-target-group'', g)]
     \<and> hc_path (healthCheck (tg_props g)) = Some ''/''
     \<and> healthyHttpCodes (healthCheck (tg_props g)) = Some ''200''
     \<and> Option.bind (healthyHttpCodes (healthCheck (tg_props g))) httpCodes = Some codes
     \<and> set codes = {200}
     \<and> tg_port (tg_props g) = 3000
     \<and> targetType (tg_props g) = IP
     \<and> tg_protocol (tg_props g) = HTTP"
  using assms
  by (cases v)
    (simp_all add: stack_defs library_defs constant_defs admissible_def httpCodes_def codeRange_def statusCode_def digit_def)

theorem targetGroup_health_check_witness:
  "admissible exampleHost ''AwsCdkEc2Stack'' exampleProps
   \<and> (\<exists>s g codes.
     stackOf FirstGeneration exampleHost App ''AwsCdkEc2Stack'' exampleProps = Some s
     \<and> targetGroups s = [(prefixOf FirstGeneration @ ''-target-group'', g)]
     \<and> hc_path (healthCheck (tg_props g)) = Some ''/''
     \<and> healthyHttpCodes (healthCheck (tg_props g)) = Some ''200''
     \<and> Option.bind (healthyHttpCodes (healthCheck (tg_props g))) httpCodes = Some codes
     \<and> set codes = {200}
     \<and> tg_port (tg_props g) = 3000
     \<and> targetType (tg_props g) = IP
     \<and> tg_protocol (tg_props g) = HTTP)"
proof -
  have inputs: "admissible exampleHost ''AwsCdkEc2Stack'' exampleProps"
    by (simp add: admissible_def exampleHost_def exampleProps_def validStackName_def
        letters_def)
  from inputs targetGroup_health_check [where scope = App and v = FirstGeneration, OF inputs]
  show ?thesis by (rule conjI)
qed

text \<open>
  C6. In either stack the task definition has exactly one container; the container has
  one port mapping, with host port and container port 3000; the task definition reserves
  512 CPU units and 1024 MiB of memory; the container's log driver keeps logs for 30 days.
\<close>

theorem taskDefinition_one_container:
  assumes "admissible host i props"
  shows "\<exists>s t c.
     stackOf v host scope i props = Some s
     \<and> taskDefinitions s = [(prefixOf v @ ''-task-def'', t)]
     \<and> containers t = [c]
     \<and> portMappings c = [\<lparr>containerPort = 3000, hostPort = Some 3000\<rparr>]
     \<and> cpu (td_props t) = 512
     \<and> memoryLimitMiB (td_props t) = 1024
     \<and> logging (cd_props c)
         = Some (awsLogs \<lparr>streamPrefix = ''nest-app'', logRetention = Some 30\<rparr>)"
  using assms
  by (cases v)
    (simp_all add: stack_defs library_defs constant_defs admissible_def ONE_MONTH_def)

theorem taskDefinition_one_container_witness:
  "admissible exampleHost ''AwsCdkEc2Stack'' exampleProps
   \<and> (\<exists>s t c.
     stackOf FirstGeneration exampleHost App ''AwsCdkEc2Stack'' exampleProps = Some s
     \<and> taskDefinitions s = [(prefixOf FirstGeneration @ ''-task-def'', t)]
     \<and> containers t = [c]
     \<and> portMappings c = [\<lparr>containerPort = 3000, hostPort = Some 3000\<rparr>]
     \<and> cpu (td_props t) = 512
     \<and> memoryLimitMiB (td_props t) = 1024
     \<and> logging (cd_props c)
         = Some (awsLogs \<lparr>streamPrefix = ''nest-app'', logRetention = Some 30\<rparr>))"
proof -
  have inputs: "admissible exampleHost ''AwsCdkEc2Stack'' exampleProps"
    by (simp add: admissible_def exampleHost_def exampleProps_def validStackName_def
        letters_def)
  from inputs taskDefinition_one_container [where scope = App and v = FirstGeneration, OF inputs]
  show ?thesis by (rule conjI)
qed

text \<open>
  C7. In either stack the service asks for one running task, is given the security group
  \<open>securityGroupApp\<close> and no other, and is attached to the target group: the service
  records the target group, the target group has the service as its one member, on TCP
  port 3000, and it is the target group the listener forwards to.
\<close>

theorem service_count_group_target:
  assumes "admissible host i props"
  shows "\<exists>s svc g tg b l.
     stackOf v host scope i props = Some s
     \<and> services s = [(prefixOf v @ ''-service'', svc)]
     \<and> desiredCount (svc_props svc) = 1
     \<and> svc_securityGroups (svc_props svc) = [prefixOf v @ ''-security-group-app'']
     \<and> map_of (securityGroups s) (prefixOf v @ ''-security-group-app'') = Some g
     \<and> securityGroupName (sg_props g) = prefixOf v @ ''-security-group-app''
     \<and> attachedTargetGroups svc = [prefixOf v @ ''-target-group'']
     \<and> targetGroups s = [(prefixOf v @ ''-target-group'', tg)]
     \<and> connectableMembers tg
         = [(prefixOf v @ ''-service'', \<lparr>protocol = TCP, fromPort = 3000, toPort = 3000\<rparr>)]
     \<and> map_of (loadBalancers s) (prefixOf v @ ''-alb'') = Some b
     \<and> listeners b = [l]
     \<and> defaultAction l = Some (forward [prefixOf v @ ''-target-group''])"
  using assms
  by (cases v)
    (simp_all add: stack_defs library_defs constant_defs admissible_def)

theorem service_count_group_target_witness:
  "admissible exampleHost ''AwsCdkEc2Stack'' exampleProps
   \<and> (\<exists>s svc g tg b l.
     stackOf FirstGeneration exampleHost App ''AwsCdkEc2Stack'' exampleProps = Some s
     \<and> services s = [(prefixOf FirstGeneration @ ''-service'', svc)]
     \<and> desiredCount (svc_props svc) = 1
     \<and> svc_securityGroups (svc_props svc) = [prefixOf FirstGeneration @ ''-security-group-app'']
     \<and> map_of (securityGroups s) (prefixOf FirstGeneration @ ''-security-group-app'') = Some g
     \<and> securityGroupName (sg_props g) = prefixOf FirstGeneration @ ''-security-group-app''
     \<and> attachedTargetGroups svc = [prefixOf FirstGeneration @ ''-target-group'']
     \<and> targetGroups s = [(prefixOf FirstGeneration @ ''-target-group'', tg)]
     \<and> connectableMembers tg
         = [(prefixOf FirstGeneration @ ''-service'', \<lparr>protocol = TCP, fromPort = 3000, toPort = 3000\<rparr>)]
     \<and> map_of (loadBalancers s) (prefixOf FirstGeneration @ ''-alb'') = Some b
     \<and> listeners b = [l]
     \<and> defaultAction l = Some (forward [prefixOf FirstGeneration @ ''-target-group'']))"
proof -
  have inputs: "admissible exampleHost ''AwsCdkEc2Stack'' exampleProps"
    by (simp add: admissible_def exampleHost_def exampleProps_def validStackName_def
        letters_def)
  from inputs service_count_group_target [where scope = App and v = FirstGeneration, OF inputs]
  show ?thesis by (rule conjI)
qed

text \<open>
  C8. In either stack the DNS record is named \<open>backend.\<close> followed by the module's
  domain, lies in the hosted zone looked up for that domain, and its target is an alias of
  the load balancer, not a list of IP addresses.
\<close>

theorem aRecord_alias_of_load_balancer:
  assumes "admissible host i props"
  shows "\<exists>s r b.
     stackOf v host scope i props = Some s
     \<and> aRecords s = [(prefixOf v @ ''-alias-record'', r)]
     \<and> recordName r = ''backend.'' @ domainOf v
     \<and> recordName r = ''backend.nikolatec.com''
     \<and> rec_zone r = prefixOf v @ ''-hosted-zone''
     \<and> hostedZones s = [(prefixOf v @ ''-hosted-zone'', \<lparr>hz_domainName = domainOf v\<rparr>)]
     \<and> rec_target r = fromAlias (LoadBalancerTarget (prefixOf v @ ''-alb''))
     \<and> loadBalancers s = [(prefixOf v @ ''-alb'', b)]
     \<and> (\<forall>addresses. rec_target r \<noteq> fromIpAddresses addresses)"
  using assms
  by (cases v)
    (simp_all add: stack_defs library_defs constant_defs admissible_def)

theorem aRecord_alias_of_load_balancer_witness:
  "admissible exampleHost ''AwsCdkEc2Stack'' exampleProps
   \<and> (\<exists>s r b.
     stackOf FirstGeneration exampleHost App ''AwsCdkEc2Stack'' exampleProps = Some s
     \<and> aRecords s = [(prefixOf FirstGeneration @ ''-alias-record'', r)]
     \<and> recordName r = ''backend.'' @ domainOf FirstGeneration
     \<and> recordName r = ''backend.nikolatec.com''
     \<and> rec_zone r = prefixOf FirstGeneration @ ''-hosted-zone''
     \<and> hostedZones s = [(prefixOf FirstGeneration @ ''-hosted-zone'', \<lparr>hz_domainName = domainOf FirstGeneration\<rparr>)]
     \<and> rec_target r = fromAlias (LoadBalancerTarget (prefixOf FirstGeneration @ ''-alb''))
     \<and> loadBalancers s = [(prefixOf FirstGeneration @ ''-alb'', b)]
     \<and> (\<forall>addresses. rec_target r \<noteq> fromIpAddresses addresses))"
proof -
  have inputs: "admissible exampleHost ''AwsCdkEc2Stack'' exampleProps"
    by (simp add: admissible_def exampleHost_def exampleProps_def validStackName_def
        letters_def)
  from inputs aRecord_alias_of_load_balancer [where scope = App and v = FirstGeneration, OF inputs]
  show ?thesis by (rule conjI)
qed

text \<open>
  C9. In either stack there is one load balancer; it has exactly one listener, on port
  443, with the certificate of the stack; the listener has no rule and its default
  action forwards to the one target group of the stack.
\<close>

theorem loadBalancer_one_listener:
  assumes "admissible host i props"
  shows "\<exists>s b l c.
     stackOf v host scope i props = Some s
     \<and> loadBalancers s = [(prefixOf v @ ''-alb'', b)]
     \<and> listeners b = [l]
     \<and> l_port (l_props l) = 443
     \<and> l_certificates (l_props l)
         = [\<lparr>lc_certificateArn = certificateArn (prefixOf v @ ''-certificate'')\<rparr>]
     \<and> certificates s = [(prefixOf v @ ''-certificate'', c)]
     \<and> listenerRules l = []
     \<and> defaultAction l = Some (forward [prefixOf v @ ''-target-group''])
     \<and> map fst (targetGroups s) = [prefixOf v @ ''-target-group'']"
  using assms
  by (cases v)
    (simp_all add: stack_defs library_defs constant_defs admissible_def)

theorem loadBalancer_one_listener_witness:
  "admissible exampleHost ''AwsCdkEc2Stack'' exampleProps
   \<and> (\<exists>s b l c.
     stackOf FirstGeneration exampleHost App ''AwsCdkEc2Stack'' exampleProps = Some s
     \<and> loadBalancers s = [(prefixOf FirstGeneration @ ''-alb'', b)]
     \<and> listeners b = [l]
     \<and> l_port (l_props l) = 443
     \<and> l_certificates (l_props l)
         = [\<lparr>lc_certificateArn = certificateArn (prefixOf FirstGeneration @ ''-certificate'')\<rparr>]
     \<and> certificates s = [(prefixOf FirstGeneration @ ''-certificate'', c)]
     \<and> listenerRules l = []
     \<and> defaultAction l = Some (forward [prefixOf FirstGeneration @ ''-target-group''])
     \<and> map fst (targetGroups s) = [prefixOf FirstGeneration @ ''-target-group''])"
proof -
  have inputs: "admissible exampleHost ''AwsCdkEc2Stack'' exampleProps"
    by (simp add: admissible_def exampleHost_def exampleProps_def validStackName_def
        letters_def)
  from inputs loadBalancer_one_listener [where scope = App and v = FirstGeneration, OF inputs]
  show ?thesis by (rule conjI)
qed

text \<open>
  C10. In either stack, whatever the account and the region of the stack's environment,
  the id of the stack and the machine it is built on, the one certificate is issued in the
  region \<open>us-east-1\<close>.
\<close>

theorem certificate_region_fixed:
  assumes "admissible host i props"
  shows "\<exists>s c.
     stackOf v host scope i props = Some s
     \<and> stackAccount s = envAccount props
     \<and> stackRegion s = envRegion props
     \<and> certificates s = [(prefixOf v @ ''-certificate'', c)]
     \<and> cert_region c = Some ''us-east-1''"
  using assms
  by (cases v)
    (simp_all add: stack_defs library_defs constant_defs admissible_def)

theorem certificate_region_fixed_witness:
  "admissible exampleHost ''AwsCdkEc2Stack'' exampleProps
   \<and> (\<exists>s c.
     stackOf FirstGeneration exampleHost App ''AwsCdkEc2Stack'' exampleProps = Some s
     \<and> stackAccount s = envAccount exampleProps
     \<and> stackRegion s = envRegion exampleProps
     \<and> certificates s = [(prefixOf FirstGeneration @ ''-certificate'', c)]
     \<and> cert_region c = Some ''us-east-1'')"
proof -
  have inputs: "admissible exampleHost ''AwsCdkEc2Stack'' exampleProps"
    by (simp add: admissible_def exampleHost_def exampleProps_def validStackName_def
        letters_def)
  from inputs certificate_region_fixed [where scope = App and v = FirstGeneration, OF inputs]
  show ?thesis by (rule conjI)
qed

end
